theory Spec2Isabelle
  imports Complex_Main "HOL-Library.Multiset"
begin

section \<open>The geographic clustering engine (src/utils/clustering.ts)\<close>

text \<open>
  A shallow embedding of \<^verbatim>\<open>kMeansCluster\<close> and its two helpers.

  Conventions of the embedding:
  \<^item> a JavaScript \<^verbatim>\<open>number\<close> holding a coordinate or a distance is a \<open>real\<close>: the
    inputs are taken to be finite and the arithmetic exact. The one non-finite value the
    code writes itself, the literal \<^verbatim>\<open>Infinity\<close> that starts the search for the
    nearest centroid, is a constructor of \<open>distance_bound\<close>;
  \<^item> a \<^verbatim>\<open>number\<close> holding an array index or a cluster number is a \<open>nat\<close>; the
    parameter \<^verbatim>\<open>k\<close> is an \<open>int\<close>, and a loop \<^verbatim>\<open>for (i = 0; i < k; i++)\<close> runs over
    \<open>[0..<nat k]\<close>, which is empty for \<open>k \<le> 0\<close> as the loop is. The model takes \<open>k\<close>
    as an argument; the default \<^verbatim>\<open>k = 5\<close> of the source stands for a call without it;
  \<^item> \<^verbatim>\<open>Math.random()\<close> is a stream \<open>rnd\<close> of draws: the \<open>n\<close>-th call returns
    \<open>rnd n\<close>;
  \<^item> an optional field is an \<open>option\<close>, \<^verbatim>\<open>undefined\<close> is \<open>None\<close>;
  \<^item> the outcome of a call is \<open>error + result\<close>. The source has no \<^verbatim>\<open>throw\<close>
    statement, so every path of the model ends in \<open>Inr\<close>.
\<close>

subsection \<open>Data (src/types/restaurant.ts)\<close>

record Restaurant =
  idR :: string
  name :: string
  lat :: real
  lon :: real
  cuisine :: "string option"
  zone :: "string option"
  cluster :: "nat option"

record ClusterData =
  idC :: nat
  center :: "real \<times> real"
  restaurants :: "Restaurant list"
  color :: string

datatype error = InvalidParameter

record bounds =
  minLat :: real
  maxLat :: real
  minLon :: real
  maxLon :: real

text \<open>The working state of the \<^verbatim>\<open>while\<close> loop: the three variables it assigns.\<close>

record loop_state =
  centroids :: "(real \<times> real) list"
  assignments :: "nat list"
  iterations :: nat

datatype distance_bound = Infinity | Finite real

subsection \<open>Array helpers of the language\<close>

text \<open>\<^verbatim>\<open>xs[idx]\<close>: \<^verbatim>\<open>undefined\<close> out of range.\<close>

definition elemAt :: "'a list \<Rightarrow> nat \<Rightarrow> 'a option" where
  "elemAt xs idx = (if idx < length xs then Some (xs ! idx) else None)"

text \<open>\<^verbatim>\<open>xs.filter((x, idx) => p(x, idx))\<close> and \<^verbatim>\<open>xs.every((x, idx) => p(x, idx))\<close>.\<close>

definition filterIdx :: "('a \<Rightarrow> nat \<Rightarrow> bool) \<Rightarrow> 'a list \<Rightarrow> 'a list" where
  "filterIdx p xs = map fst (filter (\<lambda>(x, idx). p x idx) (zip xs [0..<length xs]))"

definition everyIdx :: "('a \<Rightarrow> nat \<Rightarrow> bool) \<Rightarrow> 'a list \<Rightarrow> bool" where
  "everyIdx p xs = list_all (\<lambda>(x, idx). p x idx) (zip xs [0..<length xs])"

subsection \<open>Geometry\<close>

definition euclideanDistance :: "real \<times> real \<Rightarrow> real \<times> real \<Rightarrow> real" where
  "euclideanDistance point1 point2 =
     (let dx = fst point1 - fst point2;
          dy = snd point1 - snd point2
      in sqrt (dx * dx + dy * dy))"

text \<open>
  \<^verbatim>\<open>getBounds\<close> is called after the test for an empty input only, so the minimum and
  maximum are taken over non-empty lists (on no arguments \<^verbatim>\<open>Math.min\<close> is
  \<^verbatim>\<open>Infinity\<close>, which the model does not reach).
\<close>

definition getBounds :: "Restaurant list \<Rightarrow> bounds" where
  "getBounds rests =
     (let lats = map lat rests;
          lons = map lon rests
      in \<lparr>minLat = Min (set lats), maxLat = Max (set lats),
          minLon = Min (set lons), maxLon = Max (set lons)\<rparr>)"

subsection \<open>Initialisation\<close>

definition maxIterations :: nat where
  "maxIterations = 100"

text \<open>
  Centroid \<open>i\<close> takes two draws, the latitude first: draws \<open>2 * i\<close> and \<open>2 * i + 1\<close>.
\<close>

definition initCentroids :: "(nat \<Rightarrow> real) \<Rightarrow> Restaurant list \<Rightarrow> int \<Rightarrow> (real \<times> real) list" where
  "initCentroids rnd rests k =
     (let b = getBounds rests
      in map (\<lambda>i. (rnd (2 * i) * (maxLat b - minLat b) + minLat b,
                    rnd (2 * i + 1) * (maxLon b - minLon b) + minLon b))
           [0..<nat k])"

definition initState :: "(nat \<Rightarrow> real) \<Rightarrow> Restaurant list \<Rightarrow> int \<Rightarrow> loop_state" where
  "initState rnd rests k =
     \<lparr>centroids = initCentroids rnd rests k,
      assignments = replicate (length rests) 0,
      iterations = 0\<rparr>"

subsection \<open>Assignment step\<close>

text \<open>\<^verbatim>\<open>distance < minDistance\<close>, where \<^verbatim>\<open>minDistance\<close> starts as \<^verbatim>\<open>Infinity\<close>.\<close>

fun isLess :: "real \<Rightarrow> distance_bound \<Rightarrow> bool" where
  "isLess d Infinity = True"
| "isLess d (Finite m) = (d < m)"

text \<open>
  One turn of the inner loop over the centroids; the pair is
  (\<^verbatim>\<open>minDistance\<close>, \<^verbatim>\<open>assignedCluster\<close>). The index \<open>i\<close> runs below
  \<^verbatim>\<open>centroids.length\<close>, so \<open>cs ! i\<close> is in range.
\<close>

definition nearestStep ::
  "Restaurant \<Rightarrow> (real \<times> real) list \<Rightarrow> nat \<Rightarrow> distance_bound \<times> nat \<Rightarrow> distance_bound \<times> nat" where
  "nearestStep restaurant cs i acc =
     (let distance = euclideanDistance (lat restaurant, lon restaurant) (cs ! i)
      in if isLess distance (fst acc) then (Finite distance, i) else acc)"

definition assignCluster :: "Restaurant \<Rightarrow> (real \<times> real) list \<Rightarrow> nat" where
  "assignCluster restaurant cs =
     snd (fold (nearestStep restaurant cs) [0..<length cs] (Infinity, 0))"

definition assignAll :: "Restaurant list \<Rightarrow> (real \<times> real) list \<Rightarrow> nat list" where
  "assignAll rests cs = map (\<lambda>restaurant. assignCluster restaurant cs) rests"

subsection \<open>Update step\<close>

text \<open>The restaurants whose assignment is cluster \<open>i\<close>, in input order.\<close>

definition clusterRestaurants :: "Restaurant list \<Rightarrow> nat list \<Rightarrow> nat \<Rightarrow> Restaurant list" where
  "clusterRestaurants rests asg i = filterIdx (\<lambda>_ idx. elemAt asg idx = Some i) rests"

text \<open>
  One turn of the loop over \<open>i < k\<close>. The centroid array has \<open>k\<close> entries when the loop
  runs (lemma \<open>length_centroids_kMeansLoop\<close> below), so the store
  \<^verbatim>\<open>centroids[i] = ...\<close> is in range.
\<close>

definition updateStep ::
  "Restaurant list \<Rightarrow> nat list \<Rightarrow> nat \<Rightarrow> (real \<times> real) list \<Rightarrow> (real \<times> real) list" where
  "updateStep rests asg i cs =
     (let members = clusterRestaurants rests asg i
      in if length members > 0
         then let avgLat = foldl (\<lambda>sum r. sum + lat r) 0 members / real (length members);
                  avgLon = foldl (\<lambda>sum r. sum + lon r) 0 members / real (length members)
              in cs[i := (avgLat, avgLon)]
         else cs)"

definition updateCentroids ::
  "Restaurant list \<Rightarrow> nat list \<Rightarrow> int \<Rightarrow> (real \<times> real) list \<Rightarrow> (real \<times> real) list" where
  "updateCentroids rests asg k cs = fold (updateStep rests asg) [0..<nat k] cs"

subsection \<open>The main loop\<close>

text \<open>
  The test \<^verbatim>\<open>assignments.every((val, idx) => val === newAssignments[idx])\<close>, one pass
  of assignment and update, and the \<^verbatim>\<open>while\<close> loop. The loop leaves by its
  \<^verbatim>\<open>break\<close> when the new assignments equal the current ones, before the update, and by
  its condition when the counter reaches \<open>maxIterations\<close>.
\<close>

definition converged :: "nat list \<Rightarrow> nat list \<Rightarrow> bool" where
  "converged asg newAssignments =
     everyIdx (\<lambda>val idx. elemAt newAssignments idx = Some val) asg"

definition nextState :: "Restaurant list \<Rightarrow> int \<Rightarrow> loop_state \<Rightarrow> loop_state" where
  "nextState rests k st =
     \<lparr>centroids = updateCentroids rests (assignAll rests (centroids st)) k (centroids st),
      assignments = assignAll rests (centroids st),
      iterations = iterations st + 1\<rparr>"

function kMeansLoop :: "Restaurant list \<Rightarrow> int \<Rightarrow> loop_state \<Rightarrow> loop_state" where
  "kMeansLoop rests k st =
     (if iterations st < maxIterations
      then if converged (assignments st) (assignAll rests (centroids st))
           then st
           else kMeansLoop rests k (nextState rests k st)
      else st)"
  by pat_completeness auto
termination
  by (relation "measure (\<lambda>(rests, k, st). maxIterations - iterations st)")
     (auto simp: nextState_def)

declare kMeansLoop.simps [simp del]

subsection \<open>Output assembly\<close>

definition clusterColors :: "string list" where
  "clusterColors =
     [''#e91e63'', ''#9c27b0'', ''#3f51b5'', ''#00bcd4'', ''#4caf50'', ''#ff9800'', ''#f44336'']"

text \<open>
  The members of cluster \<open>i\<close>: every restaurant is copied with its \<^verbatim>\<open>cluster\<close> field
  set to \<open>i\<close>, then the copies at the positions assigned to \<open>i\<close> are kept.
\<close>

definition taggedRestaurants :: "Restaurant list \<Rightarrow> nat list \<Rightarrow> nat \<Rightarrow> Restaurant list" where
  "taggedRestaurants rests asg i =
     filterIdx (\<lambda>_ idx. elemAt asg idx = Some i)
       (map (\<lambda>restaurant. restaurant\<lparr>cluster := Some i\<rparr>) rests)"

text \<open>
  One turn of the output loop over \<open>i < k\<close>: the cluster pushed for \<open>i\<close>, if any. The
  centroid array has \<open>k\<close> entries here, so \<open>centroids st ! i\<close> is in range.
\<close>

definition clusterEntry :: "Restaurant list \<Rightarrow> loop_state \<Rightarrow> nat \<Rightarrow> ClusterData list" where
  "clusterEntry rests st i =
     (let members = taggedRestaurants rests (assignments st) i
      in if length members > 0
         then [\<lparr>idC = i, center = centroids st ! i, restaurants = members,
                color = clusterColors ! (i mod length clusterColors)\<rparr>]
         else [])"

definition createClusters :: "Restaurant list \<Rightarrow> int \<Rightarrow> loop_state \<Rightarrow> ClusterData list" where
  "createClusters rests k st = concat (map (clusterEntry rests st) [0..<nat k])"

definition kMeansCluster ::
  "(nat \<Rightarrow> real) \<Rightarrow> Restaurant list \<Rightarrow> int \<Rightarrow> error + ClusterData list" where
  "kMeansCluster rnd rests k =
     (if length rests = 0 then Inr []
      else Inr (createClusters rests k (kMeansLoop rests k (initState rnd rests k))))"

subsection \<open>Sample inputs\<close>

text \<open>
  A restaurant with only its identifier and position set, and a stream of draws that
  returns the listed values first and \<open>0\<close> afterwards. They give the concrete runs below
  their inputs.
\<close>

definition point :: "string \<Rightarrow> real \<Rightarrow> real \<Rightarrow> Restaurant" where
  "point i x y =
     \<lparr>idR = i, name = i, lat = x, lon = y, cuisine = None, zone = None, cluster = None\<rparr>"

definition draws :: "real list \<Rightarrow> nat \<Rightarrow> real" where
  "draws xs n = (if n < length xs then xs ! n else 0)"

section \<open>Properties\<close>

subsection \<open>The array helpers, by index\<close>

lemma zip_upt_nth: "zip xs [0..<length xs] = map (\<lambda>j. (xs ! j, j)) [0..<length xs]"
  by (rule nth_equalityI) auto

lemma filterIdx_nth:
  "filterIdx p xs = map (\<lambda>j. xs ! j) (filter (\<lambda>j. p (xs ! j) j) [0..<length xs])"
  by (simp add: filterIdx_def zip_upt_nth filter_map comp_def)

lemma everyIdx_nth: "everyIdx p xs = (\<forall>j<length xs. p (xs ! j) j)"
  by (auto simp add: everyIdx_def zip_upt_nth list_all_iff)

lemma converged_iff:
  "length asg = length new \<Longrightarrow> converged asg new = (asg = new)"
  by (auto simp: converged_def everyIdx_nth elemAt_def list_eq_iff_nth_eq)

lemma taggedRestaurants_idx:
  "length asg = length rests \<Longrightarrow>
   taggedRestaurants rests asg i =
     map (\<lambda>j. (rests ! j)\<lparr>cluster := Some i\<rparr>) (filter (\<lambda>j. asg ! j = i) [0..<length rests])"
  unfolding taggedRestaurants_def filterIdx_nth
  by (rule map_cong) (auto simp: elemAt_def intro: filter_cong)

lemma concat_map_if:
  "concat (map (\<lambda>i. if P i then [f i] else []) xs) = map f (filter P xs)"
  by (induction xs) auto

lemma createClusters_eq:
  "createClusters rests k st =
     map (\<lambda>i. \<lparr>idC = i, center = centroids st ! i,
               restaurants = taggedRestaurants rests (assignments st) i,
               color = clusterColors ! (i mod length clusterColors)\<rparr>)
       (filter (\<lambda>i. taggedRestaurants rests (assignments st) i \<noteq> []) [0..<nat k])"
  unfolding createClusters_def clusterEntry_def Let_def length_greater_0_conv
  by (rule concat_map_if)

subsection \<open>The assignment step, the update step and the loop\<close>

lemma nearest_fold:
  "0 < n \<Longrightarrow> n \<le> length cs \<Longrightarrow>
   \<exists>j<n. fold (nearestStep r cs) [0..<n] (Infinity, 0)
            = (Finite (euclideanDistance (lat r, lon r) (cs ! j)), j)
         \<and> (\<forall>i<n. euclideanDistance (lat r, lon r) (cs ! j) \<le> euclideanDistance (lat r, lon r) (cs ! i))
         \<and> (\<forall>i<j. euclideanDistance (lat r, lon r) (cs ! j) < euclideanDistance (lat r, lon r) (cs ! i))"
proof (induction n)
  case 0
  then show ?case by simp
next
  case (Suc n)
  let ?D = "\<lambda>i. euclideanDistance (lat r, lon r) (cs ! i)"
  show ?case
  proof (cases "n = 0")
    case True
    then show ?thesis by (simp add: nearestStep_def)
  next
    case False
    with Suc obtain j where j: "j < n"
      "fold (nearestStep r cs) [0..<n] (Infinity, 0) = (Finite (?D j), j)"
      "\<forall>i<n. ?D j \<le> ?D i" "\<forall>i<j. ?D j < ?D i"
      by auto
    show ?thesis
    proof (cases "?D n < ?D j")
      case True
      have "fold (nearestStep r cs) [0..<Suc n] (Infinity, 0) = (Finite (?D n), n)"
        using j(2) True by (simp add: nearestStep_def)
      moreover have "\<forall>i<Suc n. ?D n \<le> ?D i"
        using True j(3) by (auto simp: less_Suc_eq intro: less_imp_le order.strict_trans2)
      moreover have "\<forall>i<n. ?D n < ?D i"
        using True j(3) by (auto intro: order.strict_trans2)
      ultimately show ?thesis by blast
    next
      case False
      have "fold (nearestStep r cs) [0..<Suc n] (Infinity, 0) = (Finite (?D j), j)"
        using j(2) False by (simp add: nearestStep_def)
      moreover have "\<forall>i<Suc n. ?D j \<le> ?D i"
        using False j(3) by (auto simp: less_Suc_eq)
      ultimately show ?thesis using j(1,4) by (metis less_SucI)
    qed
  qed
qed

lemma assignCluster_nearest:
  assumes "cs \<noteq> []"
  shows "assignCluster r cs < length cs"
    and "\<forall>i<length cs. euclideanDistance (lat r, lon r) (cs ! assignCluster r cs)
                          \<le> euclideanDistance (lat r, lon r) (cs ! i)"
    and "\<forall>i<assignCluster r cs. euclideanDistance (lat r, lon r) (cs ! assignCluster r cs)
                          < euclideanDistance (lat r, lon r) (cs ! i)"
  using nearest_fold[of "length cs" cs r] assms by (auto simp: assignCluster_def)

lemma foldl_add_sum_list:
  "foldl (\<lambda>sum r. sum + f r) a xs = a + sum_list (map f xs)" for a :: real
  by (induction xs arbitrary: a) auto

lemma length_updateStep: "length (updateStep rests asg i cs) = length cs"
  by (simp add: updateStep_def Let_def)

lemma length_fold_updateStep: "length (fold (updateStep rests asg) is cs) = length cs"
  by (induction "is" arbitrary: cs) (auto simp: length_updateStep)

lemma length_updateCentroids: "length (updateCentroids rests asg k cs) = length cs"
  by (simp add: updateCentroids_def length_fold_updateStep)

lemma nth_updateStep:
  "j < length cs \<Longrightarrow>
   updateStep rests asg i cs ! j =
     (if j = i \<and> clusterRestaurants rests asg i \<noteq> []
      then (sum_list (map lat (clusterRestaurants rests asg i)) / real (length (clusterRestaurants rests asg i)),
            sum_list (map lon (clusterRestaurants rests asg i)) / real (length (clusterRestaurants rests asg i)))
      else cs ! j)"
  by (simp add: updateStep_def Let_def foldl_add_sum_list nth_list_update)

lemma nth_fold_updateStep:
  "i < length cs \<Longrightarrow>
   fold (updateStep rests asg) [0..<n] cs ! i =
     (if i < n \<and> clusterRestaurants rests asg i \<noteq> []
      then (sum_list (map lat (clusterRestaurants rests asg i)) / real (length (clusterRestaurants rests asg i)),
            sum_list (map lon (clusterRestaurants rests asg i)) / real (length (clusterRestaurants rests asg i)))
      else cs ! i)"
proof (induction n)
  case 0
  then show ?case by simp
next
  case (Suc n)
  then show ?case
    by (auto simp: nth_updateStep length_fold_updateStep less_Suc_eq)
qed

lemma kMeansLoop_invariant:
  "P st \<Longrightarrow> (\<And>s. P s \<Longrightarrow> P (nextState rests k s)) \<Longrightarrow> P (kMeansLoop rests k st)"
proof (induction rests k st rule: kMeansLoop.induct)
  case (1 rests k st)
  show ?case
  proof (cases "iterations st < maxIterations \<and> \<not> converged (assignments st) (assignAll rests (centroids st))")
    case True
    then have "kMeansLoop rests k st = kMeansLoop rests k (nextState rests k st)"
      by (subst kMeansLoop.simps) simp
    moreover have "P (nextState rests k st)"
      using 1(2) by (rule 1(3))
    ultimately show ?thesis using 1(1) 1(3) True by simp
  next
    case False
    then have "kMeansLoop rests k st = st"
      by (subst kMeansLoop.simps) auto
    then show ?thesis using 1(2) by simp
  qed
qed

lemma iterations_kMeansLoop:
  "iterations st \<le> maxIterations \<Longrightarrow> iterations (kMeansLoop rests k st) \<le> maxIterations"
proof (induction rests k st rule: kMeansLoop.induct)
  case (1 rests k st)
  show ?case
  proof (cases "iterations st < maxIterations \<and> \<not> converged (assignments st) (assignAll rests (centroids st))")
    case True
    then have "kMeansLoop rests k st = kMeansLoop rests k (nextState rests k st)"
      by (subst kMeansLoop.simps) simp
    moreover have "iterations (nextState rests k st) \<le> maxIterations"
      using True by (simp add: nextState_def)
    ultimately show ?thesis using 1(1) True by simp
  next
    case False
    then have "kMeansLoop rests k st = st"
      by (subst kMeansLoop.simps) auto
    then show ?thesis using 1(2) by simp
  qed
qed

lemma kMeansLoop_funpow:
  "\<exists>n. n + iterations st \<le> max (iterations st) maxIterations
       \<and> kMeansLoop rests k st = (nextState rests k ^^ n) st"
proof (induction rests k st rule: kMeansLoop.induct)
  case (1 rests k st)
  show ?case
  proof (cases "iterations st < maxIterations \<and> \<not> converged (assignments st) (assignAll rests (centroids st))")
    case True
    then have eq: "kMeansLoop rests k st = kMeansLoop rests k (nextState rests k st)"
      by (subst kMeansLoop.simps) simp
    from 1 True obtain n where n:
      "n + iterations (nextState rests k st) \<le> max (iterations (nextState rests k st)) maxIterations"
      "kMeansLoop rests k (nextState rests k st) = (nextState rests k ^^ n) (nextState rests k st)"
      by blast
    have "Suc n + iterations st \<le> max (iterations st) maxIterations"
      using n(1) True by (simp add: nextState_def)
    moreover have "kMeansLoop rests k st = (nextState rests k ^^ Suc n) st"
      using eq n(2) by (simp add: funpow_swap1)
    ultimately show ?thesis by blast
  next
    case False
    then have "kMeansLoop rests k st = st"
      by (subst kMeansLoop.simps) auto
    then have "0 + iterations st \<le> max (iterations st) maxIterations
       \<and> kMeansLoop rests k st = (nextState rests k ^^ 0) st"
      by simp
    then show ?thesis by blast
  qed
qed

subsection \<open>The final state and the output assembly\<close>

lemma length_initCentroids: "length (initCentroids rnd rests k) = nat k"
  by (simp add: initCentroids_def Let_def)

lemma assignAll_bound:
  "cs \<noteq> [] \<Longrightarrow> a \<in> set (assignAll rests cs) \<Longrightarrow> a < length cs"
  by (auto simp: assignAll_def assignCluster_nearest(1))

lemma length_assignAll: "length (assignAll rests cs) = length rests"
  by (simp add: assignAll_def)

lemma final_state:
  assumes "0 < k"
  shows "length (centroids (kMeansLoop rests k (initState rnd rests k))) = nat k
       \<and> length (assignments (kMeansLoop rests k (initState rnd rests k))) = length rests
       \<and> (\<forall>a\<in>set (assignments (kMeansLoop rests k (initState rnd rests k))). a < nat k)"
proof (rule kMeansLoop_invariant)
  show "length (centroids (initState rnd rests k)) = nat k
       \<and> length (assignments (initState rnd rests k)) = length rests
       \<and> (\<forall>a\<in>set (assignments (initState rnd rests k)). a < nat k)"
    using assms by (simp add: initState_def length_initCentroids)
next
  fix s :: loop_state
  assume inv: "length (centroids s) = nat k \<and> length (assignments s) = length rests
       \<and> (\<forall>a\<in>set (assignments s). a < nat k)"
  then have ne: "centroids s \<noteq> []" using assms by auto
  show "length (centroids (nextState rests k s)) = nat k
       \<and> length (assignments (nextState rests k s)) = length rests
       \<and> (\<forall>a\<in>set (assignments (nextState rests k s)). a < nat k)"
    using inv assignAll_bound[OF ne]
    by (auto simp: nextState_def length_updateCentroids length_assignAll)
qed

lemma length_centroids_kMeansLoop:
  "length (centroids st) = nat k \<Longrightarrow> length (centroids (kMeansLoop rests k st)) = nat k"
  by (rule kMeansLoop_invariant) (simp_all add: nextState_def length_updateCentroids)

lemma image_mset_filter_less_Suc:
  "image_mset g (filter_mset (\<lambda>x. f x < K) M) + image_mset g (filter_mset (\<lambda>x. f x = K) M)
   = image_mset g (filter_mset (\<lambda>x. f x < Suc K) M)" for f :: "'a \<Rightarrow> nat"
  by (induction M) (auto simp: less_Suc_eq)

lemma mset_concat_by_index:
  "mset (concat (map (\<lambda>i. map g (filter (\<lambda>x. f x = i) xs)) [0..<K]))
   = mset (map g (filter (\<lambda>x. f x < K) xs))"
  by (induction K) (simp_all add: image_mset_filter_less_Suc)

lemma concat_map_filter_nonempty:
  "(\<And>i. h i = [] \<Longrightarrow> g i = []) \<Longrightarrow>
   concat (map g (filter (\<lambda>i. h i \<noteq> []) xs)) = concat (map g xs)"
  by (induction xs) simp_all

lemma sum_list_ge_length:
  "\<forall>x\<in>set xs. 1 \<le> f x \<Longrightarrow> length xs \<le> sum_list (map f xs)" for f :: "'a \<Rightarrow> nat"
  by (induction xs) auto

lemma sum_list_eq_length:
  "\<forall>x\<in>set xs. 1 \<le> f x \<Longrightarrow> sum_list (map f xs) = length xs \<Longrightarrow> \<forall>x\<in>set xs. f x = 1"
  for f :: "'a \<Rightarrow> nat"
proof (induction xs)
  case Nil
  then show ?case by simp
next
  case (Cons a xs)
  have 1: "length xs \<le> sum_list (map f xs)"
    using Cons.prems(1) by (intro sum_list_ge_length) simp
  have 2: "1 \<le> f a" using Cons.prems(1) by simp
  have 3: "f a + sum_list (map f xs) = Suc (length xs)" using Cons.prems(2) by simp
  from 1 2 3 have "f a = 1" "sum_list (map f xs) = length xs" by linarith+
  with Cons show ?case by simp
qed

lemma createClusters_nonempty:
  "c \<in> set (createClusters rests k st) \<Longrightarrow> 1 \<le> length (restaurants c)"
  by (auto simp: createClusters_eq Suc_le_eq)

lemma untag_tagged:
  assumes "length asg = length rests"
  shows "map (\<lambda>r. r\<lparr>cluster := None\<rparr>) (taggedRestaurants rests asg i)
       = map (\<lambda>j. (rests ! j)\<lparr>cluster := None\<rparr>) (filter (\<lambda>j. asg ! j = i) [0..<length rests])"
  unfolding taggedRestaurants_idx[OF assms] by simp

lemma mset_members:
  assumes "length asg = length rests" "\<forall>a\<in>set asg. a < K"
  shows "mset (concat (map (\<lambda>i. map (\<lambda>r. r\<lparr>cluster := None\<rparr>) (taggedRestaurants rests asg i)) [0..<K]))
         = mset (map (\<lambda>r. r\<lparr>cluster := None\<rparr>) rests)"
proof -
  have "mset (concat (map (\<lambda>i. map (\<lambda>r. r\<lparr>cluster := None\<rparr>) (taggedRestaurants rests asg i)) [0..<K]))
      = mset (concat (map (\<lambda>i. map (\<lambda>j. (rests ! j)\<lparr>cluster := None\<rparr>)
                 (filter (\<lambda>j. asg ! j = i) [0..<length rests])) [0..<K]))"
    unfolding untag_tagged[OF assms(1)] ..
  also have "\<dots> = mset (map (\<lambda>j. (rests ! j)\<lparr>cluster := None\<rparr>)
                 (filter (\<lambda>j. asg ! j < K) [0..<length rests]))"
    by (rule mset_concat_by_index)
  also have "filter (\<lambda>j. asg ! j < K) [0..<length rests] = [0..<length rests]"
    using assms by (intro filter_True) simp
  also have "map (\<lambda>j. (rests ! j)\<lparr>cluster := None\<rparr>) [0..<length rests]
           = map (\<lambda>r. r\<lparr>cluster := None\<rparr>) rests"
    by (rule nth_equalityI) simp_all
  finally show ?thesis .
qed

lemma restaurants_createClusters:
  "map (\<lambda>c. map (\<lambda>r. r\<lparr>cluster := None\<rparr>) (restaurants c)) (createClusters rests k st)
   = map (\<lambda>i. map (\<lambda>r. r\<lparr>cluster := None\<rparr>) (taggedRestaurants rests (assignments st) i))
       (filter (\<lambda>i. taggedRestaurants rests (assignments st) i \<noteq> []) [0..<nat k])"
  unfolding createClusters_eq map_map by (rule map_cong) simp_all

lemma mset_clusters:
  assumes "length (assignments st) = length rests" "\<forall>a\<in>set (assignments st). a < nat k"
  shows "mset (concat (map (\<lambda>c. map (\<lambda>r. r\<lparr>cluster := None\<rparr>) (restaurants c)) (createClusters rests k st)))
         = mset (map (\<lambda>r. r\<lparr>cluster := None\<rparr>) rests)"
proof -
  have "concat (map (\<lambda>c. map (\<lambda>r. r\<lparr>cluster := None\<rparr>) (restaurants c)) (createClusters rests k st))
      = concat (map (\<lambda>i. map (\<lambda>r. r\<lparr>cluster := None\<rparr>) (taggedRestaurants rests (assignments st) i)) [0..<nat k])"
    unfolding restaurants_createClusters
    by (rule concat_map_filter_nonempty) simp
  then show ?thesis using mset_members[OF assms] by simp
qed

lemma members_total_length:
  assumes "length (assignments st) = length rests" "\<forall>a\<in>set (assignments st). a < nat k"
  shows "sum_list (map (\<lambda>c. length (restaurants c)) (createClusters rests k st)) = length rests"
proof -
  have "length (concat (map (\<lambda>c. map (\<lambda>r. r\<lparr>cluster := None\<rparr>) (restaurants c)) (createClusters rests k st)))
        = length (map (\<lambda>r. r\<lparr>cluster := None\<rparr>) rests)"
    using mset_clusters[OF assms] by (rule mset_eq_length)
  then show ?thesis
    by (simp add: length_concat comp_def)
qed

lemma idC_createClusters:
  "map idC (createClusters rests k st)
   = filter (\<lambda>i. taggedRestaurants rests (assignments st) i \<noteq> []) [0..<nat k]"
  by (simp add: createClusters_eq comp_def)

lemma restaurants_of_cluster:
  assumes "c \<in> set (createClusters rests k st)" "length (assignments st) = length rests"
  shows "restaurants c = map (\<lambda>j. (rests ! j)\<lparr>cluster := Some (idC c)\<rparr>)
           (filter (\<lambda>j. assignments st ! j = idC c) [0..<length rests])"
  using assms by (auto simp: createClusters_eq taggedRestaurants_idx)

lemma assigned_cluster_returned:
  assumes "length (assignments st) = length rests" "\<forall>a\<in>set (assignments st). a < nat k"
    "j < length rests"
  shows "assignments st ! j \<in> idC ` set (createClusters rests k st)"
proof -
  have "j \<in> set (filter (\<lambda>j'. assignments st ! j' = assignments st ! j) [0..<length rests])"
    using assms(3) by simp
  then have "taggedRestaurants rests (assignments st) (assignments st ! j) \<noteq> []"
    unfolding taggedRestaurants_idx[OF assms(1)] by (metis empty_iff list.set(1) map_is_Nil_conv)
  moreover have "assignments st ! j < nat k"
    using assms by simp
  ultimately have "assignments st ! j \<in> set (map idC (createClusters rests k st))"
    unfolding idC_createClusters by simp
  then show ?thesis by simp
qed

subsection \<open>Concrete runs\<close>

lemmas eval_defs = point_def draws_def getBounds_def initCentroids_def initState_def
  assignAll_def assignCluster_def nearestStep_def euclideanDistance_def
  converged_def everyIdx_def elemAt_def filterIdx_def clusterRestaurants_def
  updateCentroids_def updateStep_def nextState_def maxIterations_def
  createClusters_def clusterEntry_def taggedRestaurants_def clusterColors_def
  kMeansCluster_def Let_def

lemma upt2: "[0..<2] = [0, Suc 0]"
  by (simp add: upt_rec)

lemma nat2: "[0..<nat 2] = [0, Suc 0]"
  by (simp add: upt_rec)

lemma ex_init:
  "initState (draws [0, 0, 3/4, 0]) [point ''a'' 0 0, point ''b'' 4 0] 2
   = \<lparr>centroids = [(0, 0), (3, 0)], assignments = [0, 0], iterations = 0\<rparr>"
  by (simp add: eval_defs nat2 numeral_2_eq_2)

lemma ex_assign1:
  "assignAll [point ''a'' 0 0, point ''b'' 4 0] [(0, 0), (3, 0)] = [0, 1]"
  by (simp add: eval_defs upt2)

lemma ex_assign2:
  "assignAll [point ''a'' 0 0, point ''b'' 4 0] [(0, 0), (4, 0)] = [0, 1]"
  by (simp add: eval_defs upt2)

lemma ex_next:
  "nextState [point ''a'' 0 0, point ''b'' 4 0] 2 \<lparr>centroids = [(0, 0), (3, 0)], assignments = [0, 0], iterations = 0\<rparr>
   = \<lparr>centroids = [(0, 0), (4, 0)], assignments = [0, 1], iterations = 1\<rparr>"
  unfolding nextState_def
  by (simp add: ex_assign1) (simp add: eval_defs upt2 nat2)

lemma ex_loop:
  "kMeansLoop [point ''a'' 0 0, point ''b'' 4 0] 2 \<lparr>centroids = [(0, 0), (3, 0)], assignments = [0, 0], iterations = 0\<rparr>
   = \<lparr>centroids = [(0, 0), (4, 0)], assignments = [0, 1], iterations = 1\<rparr>"
  apply (subst kMeansLoop.simps)
  apply (simp add: ex_assign1 ex_next)
  apply (simp add: converged_def everyIdx_def elemAt_def upt2 maxIterations_def)
  apply (subst kMeansLoop.simps)
  apply (simp add: ex_assign2)
  apply (simp add: converged_def everyIdx_def elemAt_def upt2 maxIterations_def)
  done

lemma ex_run:
  "kMeansCluster (draws [0, 0, 3/4, 0]) [point ''a'' 0 0, point ''b'' 4 0] 2
   = Inr [\<lparr>idC = 0, center = (0, 0), restaurants = [(point ''a'' 0 0)\<lparr>cluster := Some 0\<rparr>], color = ''#e91e63''\<rparr>,
          \<lparr>idC = 1, center = (4, 0), restaurants = [(point ''b'' 4 0)\<lparr>cluster := Some 1\<rparr>], color = ''#9c27b0''\<rparr>]"
  unfolding kMeansCluster_def
  by (simp add: ex_init ex_loop)
     (simp add: createClusters_def clusterEntry_def taggedRestaurants_def filterIdx_def elemAt_def
        clusterColors_def nat2 upt2 point_def)

lemma upt3: "[0..<3] = [0, Suc 0, 2]"
  by (simp add: upt_rec numeral_2_eq_2)

lemma nat3: "[0..<nat 3] = [0, Suc 0, 2]"
  by (simp add: upt_rec numeral_2_eq_2)

lemma ex3_init:
  "initState (draws [1/8, 0, 3/4, 0, 7/8, 0]) [point ''a'' 0 0, point ''b'' 2 0, point ''c'' 8 0] 3
   = \<lparr>centroids = [(1, 0), (6, 0), (7, 0)], assignments = [0, 0, 0], iterations = 0\<rparr>"
  by (simp add: eval_defs nat3 numeral_3_eq_3)

lemma ex3_assign1:
  "assignAll [point ''a'' 0 0, point ''b'' 2 0, point ''c'' 8 0] [(1, 0), (6, 0), (7, 0)] = [0, 0, 2]"
  by (simp add: eval_defs upt3)

lemma ex3_assign2:
  "assignAll [point ''a'' 0 0, point ''b'' 2 0, point ''c'' 8 0] [(1, 0), (6, 0), (8, 0)] = [0, 0, 2]"
  by (simp add: eval_defs upt3)

lemma ex3_next:
  "nextState [point ''a'' 0 0, point ''b'' 2 0, point ''c'' 8 0] 3
     \<lparr>centroids = [(1, 0), (6, 0), (7, 0)], assignments = [0, 0, 0], iterations = 0\<rparr>
   = \<lparr>centroids = [(1, 0), (6, 0), (8, 0)], assignments = [0, 0, 2], iterations = 1\<rparr>"
  unfolding nextState_def
  by (simp add: ex3_assign1) (simp add: eval_defs upt3 nat3)

lemma ex3_loop:
  "kMeansLoop [point ''a'' 0 0, point ''b'' 2 0, point ''c'' 8 0] 3
     \<lparr>centroids = [(1, 0), (6, 0), (7, 0)], assignments = [0, 0, 0], iterations = 0\<rparr>
   = \<lparr>centroids = [(1, 0), (6, 0), (8, 0)], assignments = [0, 0, 2], iterations = 1\<rparr>"
  apply (subst kMeansLoop.simps)
  apply (simp add: ex3_assign1 ex3_next)
  apply (simp add: converged_def everyIdx_def elemAt_def upt3 maxIterations_def)
  apply (subst kMeansLoop.simps)
  apply (simp add: ex3_assign2)
  apply (simp add: converged_def everyIdx_def elemAt_def upt3 maxIterations_def)
  done

lemma ex3_run:
  "kMeansCluster (draws [1/8, 0, 3/4, 0, 7/8, 0])
     [point ''a'' 0 0, point ''b'' 2 0, point ''c'' 8 0] 3
   = Inr [\<lparr>idC = 0, center = (1, 0),
           restaurants = [(point ''a'' 0 0)\<lparr>cluster := Some 0\<rparr>,
                          (point ''b'' 2 0)\<lparr>cluster := Some 0\<rparr>],
           color = ''#e91e63''\<rparr>,
          \<lparr>idC = 2, center = (8, 0),
           restaurants = [(point ''c'' 8 0)\<lparr>cluster := Some 2\<rparr>],
           color = ''#3f51b5''\<rparr>]"
  unfolding kMeansCluster_def
  by (simp add: ex3_init ex3_loop)
     (simp add: createClusters_def clusterEntry_def taggedRestaurants_def filterIdx_def elemAt_def
        clusterColors_def nat3 upt3 point_def)

lemma assignAll_single: "assignAll rests [c] = replicate (length rests) 0"
  by (rule nth_equalityI) (simp_all add: assignAll_def assignCluster_def nearestStep_def)

lemma converged_refl: "converged asg asg"
  by (simp add: converged_iff)

lemma taggedRestaurants_all:
  "taggedRestaurants rests (replicate (length rests) i) i = map (\<lambda>r. r\<lparr>cluster := Some i\<rparr>) rests"
  unfolding taggedRestaurants_idx[of "replicate (length rests) i" rests i, simplified]
  by (rule nth_equalityI) (simp_all cong: filter_cong)

lemma kMeansCluster_k1:
  assumes "rests \<noteq> []"
  shows "kMeansCluster rnd rests 1
    = Inr [\<lparr>idC = 0,
            center = (rnd 0 * (maxLat (getBounds rests) - minLat (getBounds rests)) + minLat (getBounds rests),
                      rnd 1 * (maxLon (getBounds rests) - minLon (getBounds rests)) + minLon (getBounds rests)),
            restaurants = map (\<lambda>r. r\<lparr>cluster := Some 0\<rparr>) rests,
            color = ''#e91e63''\<rparr>]"
proof -
  let ?c = "(rnd 0 * (maxLat (getBounds rests) - minLat (getBounds rests)) + minLat (getBounds rests),
             rnd 1 * (maxLon (getBounds rests) - minLon (getBounds rests)) + minLon (getBounds rests))"
  let ?st = "\<lparr>centroids = [?c], assignments = replicate (length rests) 0, iterations = 0\<rparr>"
  have init: "initState rnd rests 1 = ?st"
    by (simp add: initState_def initCentroids_def Let_def)
  have loop: "kMeansLoop rests 1 ?st = ?st"
    by (subst kMeansLoop.simps) (simp add: assignAll_single converged_refl)
  have "createClusters rests 1 ?st
      = [\<lparr>idC = 0, center = ?c, restaurants = map (\<lambda>r. r\<lparr>cluster := Some 0\<rparr>) rests,
           color = ''#e91e63''\<rparr>]"
    using assms
    by (simp add: createClusters_def clusterEntry_def taggedRestaurants_all clusterColors_def)
  moreover have "kMeansLoop rests 1 (initState rnd rests 1) = ?st"
    by (simp only: init loop)
  moreover have "length rests \<noteq> 0"
    using assms by simp
  ultimately show ?thesis
    by (simp only: kMeansCluster_def if_False)
qed

section \<open>The claims\<close>

text \<open>
  Claim C1, as amended. The source has no check of \<open>k\<close> and no statement that raises:
  for every point sequence and every non-positive integer \<open>k\<close> the call returns the
  empty cluster sequence. (For a non-empty input the loops over \<open>i < k\<close> do not run, the
  first assignment pass gives every point cluster \<open>0\<close>, which is the initial assignment,
  and the output loop adds nothing.)
\<close>

theorem nonpositive_k_returns_empty:
  "k \<le> 0 \<Longrightarrow> kMeansCluster rnd rests k = Inr []"
  by (simp add: kMeansCluster_def createClusters_def)

theorem nonpositive_k_returns_empty_witness:
  "kMeansCluster (draws []) [point ''a'' 0 0] (- 1) = Inr []"
  using nonpositive_k_returns_empty [of "- 1" "draws []" "[point ''a'' 0 0]"]
  by simp

text \<open>
  Claim C1 as stated fails: with \<open>k = 0\<close> and with \<open>k = - 1\<close> a call on one point
  returns the empty sequence, not an \<open>InvalidParameter\<close> failure.
\<close>

theorem invalid_k_not_rejected:
  "kMeansCluster (draws []) [point ''a'' 0 0] 0 = Inr []
   \<and> kMeansCluster (draws []) [point ''a'' 0 0] 0 \<noteq> Inl InvalidParameter
   \<and> kMeansCluster (draws []) [point ''a'' 0 0] (- 1) = Inr []
   \<and> kMeansCluster (draws []) [point ''a'' 0 0] (- 1) \<noteq> Inl InvalidParameter"
  by (simp add: kMeansCluster_def createClusters_def)

text \<open>
  Claim C2 at a failing input. With \<open>k = 1\<close> the first assignment pass gives every point
  cluster \<open>0\<close>, which equals the initial all-zero assignment, so the loop stops before
  any update of the centroids (lemma \<open>kMeansCluster_k1\<close>: the one cluster holds every
  point, and its centre is the centroid drawn at initialisation). For the points
  \<open>(0, 0)\<close> and \<open>(2, 0)\<close> and a first draw of \<open>1/4\<close> the returned centre is
  \<open>(1/2, 0)\<close>; the arithmetic mean of the positions is \<open>(1, 0)\<close>.
\<close>

theorem k1_center_is_initial_draw:
  "kMeansCluster (draws [1/4, 0]) [point ''a'' 0 0, point ''b'' 2 0] 1
     = Inr [\<lparr>idC = 0, center = (1/2, 0),
             restaurants = [(point ''a'' 0 0)\<lparr>cluster := Some 0\<rparr>,
                            (point ''b'' 2 0)\<lparr>cluster := Some 0\<rparr>],
             color = ''#e91e63''\<rparr>]
   \<and> (sum_list (map lat [point ''a'' 0 0, point ''b'' 2 0])
        / real (length [point ''a'' 0 0, point ''b'' 2 0]),
      sum_list (map lon [point ''a'' 0 0, point ''b'' 2 0])
        / real (length [point ''a'' 0 0, point ''b'' 2 0]))
     = (1, 0)"
  by (simp add: kMeansCluster_k1) (simp add: getBounds_def draws_def point_def)

text \<open>
  Claim C3. For a positive \<open>k\<close> the member lists of the returned clusters partition
  the input. The output loop stores each member as a copy of the input restaurant with
  its \<open>cluster\<close> field set to the cluster's identifier, so the members are compared
  with the input up to that field:
  \<^item> taken together (as a multiset, the \<open>cluster\<close> field reset) the members of all
    returned clusters are the input points, each as often as in the input;
  \<^item> the returned identifiers are distinct, and there is an assignment of the input
    positions to returned identifiers such that the member list of a cluster is the
    list of the input restaurants at the positions assigned to it, in increasing order
    of position, each tagged with the cluster's identifier. So every input position is
    in the member list of exactly one cluster, once, and the members keep the input
    order.
\<close>

theorem clusters_partition_input:
  assumes "0 < k" and "kMeansCluster rnd rests k = Inr cs"
  shows "mset (concat (map (\<lambda>c. map (\<lambda>r. r\<lparr>cluster := None\<rparr>) (restaurants c)) cs))
           = mset (map (\<lambda>r. r\<lparr>cluster := None\<rparr>) rests)
       \<and> distinct (map idC cs)
       \<and> (\<exists>asg. length asg = length rests
            \<and> (\<forall>j<length rests. asg ! j \<in> idC ` set cs)
            \<and> (\<forall>c\<in>set cs. restaurants c =
                  map (\<lambda>j. (rests ! j)\<lparr>cluster := Some (idC c)\<rparr>)
                    (filter (\<lambda>j. asg ! j = idC c) [0..<length rests])))"
proof (cases "rests = []")
  case True
  then have "cs = []" using assms(2) by (simp add: kMeansCluster_def)
  with True show ?thesis by simp
next
  case False
  let ?st = "kMeansLoop rests k (initState rnd rests k)"
  have cs: "cs = createClusters rests k ?st"
    using False assms(2) by (simp add: kMeansCluster_def)
  have len: "length (assignments ?st) = length rests"
    and bound: "\<forall>a\<in>set (assignments ?st). a < nat k"
    using final_state [OF assms(1), of rests rnd] by simp_all
  have "mset (concat (map (\<lambda>c. map (\<lambda>r. r\<lparr>cluster := None\<rparr>) (restaurants c)) cs))
           = mset (map (\<lambda>r. r\<lparr>cluster := None\<rparr>) rests)"
    unfolding cs by (rule mset_clusters [OF len bound])
  moreover have "distinct (map idC cs)"
    unfolding cs idC_createClusters by simp
  moreover have "\<forall>j<length rests. assignments ?st ! j \<in> idC ` set cs"
    unfolding cs using assigned_cluster_returned [OF len bound] by blast
  moreover have "\<forall>c\<in>set cs. restaurants c =
                  map (\<lambda>j. (rests ! j)\<lparr>cluster := Some (idC c)\<rparr>)
                    (filter (\<lambda>j. assignments ?st ! j = idC c) [0..<length rests])"
    unfolding cs using restaurants_of_cluster [OF _ len] by blast
  ultimately show ?thesis using len by blast
qed

theorem clusters_partition_input_witness:
  "mset (concat (map (\<lambda>c. map (\<lambda>r. r\<lparr>cluster := None\<rparr>) (restaurants c))
      [\<lparr>idC = 0, center = (0, 0),
         restaurants = [(point ''a'' 0 0)\<lparr>cluster := Some 0\<rparr>], color = ''#e91e63''\<rparr>,
       \<lparr>idC = 1, center = (4, 0),
         restaurants = [(point ''b'' 4 0)\<lparr>cluster := Some 1\<rparr>], color = ''#9c27b0''\<rparr>]))
   = mset (map (\<lambda>r. r\<lparr>cluster := None\<rparr>) [point ''a'' 0 0, point ''b'' 4 0])"
proof -
  have k: "(0::int) < 2" by simp
  show ?thesis
    using clusters_partition_input [OF k ex_run] by simp
qed

text \<open>
  Claim C4. No returned cluster has an empty member list, and the returned identifiers
  are exactly the indices below \<open>k\<close> whose member list in the final assignment is not
  empty: the others are dropped from the output.
\<close>

theorem returned_clusters_nonempty:
  assumes "kMeansCluster rnd rests k = Inr cs"
  shows "(\<forall>c\<in>set cs. 1 \<le> length (restaurants c))
       \<and> (\<forall>i. i \<in> idC ` set cs \<longleftrightarrow>
              i < nat k \<and> taggedRestaurants rests
                (assignments (kMeansLoop rests k (initState rnd rests k))) i \<noteq> [])"
proof (cases "rests = []")
  case True
  then show ?thesis using assms
    by (auto simp: kMeansCluster_def taggedRestaurants_def filterIdx_def)
next
  case False
  then have cs: "cs = createClusters rests k (kMeansLoop rests k (initState rnd rests k))"
    using assms by (simp add: kMeansCluster_def)
  have "\<forall>c\<in>set cs. 1 \<le> length (restaurants c)"
    unfolding cs using createClusters_nonempty by blast
  moreover have "\<forall>i. i \<in> idC ` set cs \<longleftrightarrow>
              i < nat k \<and> taggedRestaurants rests
                (assignments (kMeansLoop rests k (initState rnd rests k))) i \<noteq> []"
    unfolding cs by (auto simp: createClusters_eq image_iff)
  ultimately show ?thesis by simp
qed

theorem returned_clusters_nonempty_witness:
  "length (restaurants \<lparr>idC = 0, center = (1, 0),
           restaurants = [(point ''a'' 0 0)\<lparr>cluster := Some 0\<rparr>,
                          (point ''b'' 2 0)\<lparr>cluster := Some 0\<rparr>],
           color = ''#e91e63''\<rparr>) \<ge> 1
   \<and> length (restaurants \<lparr>idC = 2, center = (8, 0),
           restaurants = [(point ''c'' 8 0)\<lparr>cluster := Some 2\<rparr>],
           color = ''#3f51b5''\<rparr>) \<ge> 1"
  using returned_clusters_nonempty [OF ex3_run]
  by simp

text \<open>
  Claim C5. The loop is a total function (its termination is proved above, on the
  measure \<open>maxIterations - iterations\<close>). Started with the counter at \<open>0\<close>, on any
  centroids, it ends with the counter at most \<open>maxIterations = 100\<close>, and the state it
  ends in is the initial state after \<open>n \<le> 100\<close> passes of assignment and update; at the
  bound it returns the state it has, unchanged; and the call returns a cluster
  sequence, never a failure.
\<close>

theorem bounded_iteration:
  "iterations (kMeansLoop rests k
      \<lparr>centroids = cs0, assignments = replicate (length rests) 0, iterations = 0\<rparr>)
     \<le> maxIterations
   \<and> (\<exists>n. n \<le> maxIterations
        \<and> kMeansLoop rests k
            \<lparr>centroids = cs0, assignments = replicate (length rests) 0, iterations = 0\<rparr>
          = (nextState rests k ^^ n)
            \<lparr>centroids = cs0, assignments = replicate (length rests) 0, iterations = 0\<rparr>)
   \<and> maxIterations = 100
   \<and> kMeansLoop rests k \<lparr>centroids = cs0, assignments = asg, iterations = maxIterations\<rparr>
     = \<lparr>centroids = cs0, assignments = asg, iterations = maxIterations\<rparr>
   \<and> (\<exists>cs. kMeansCluster rnd rests k = Inr cs)"
proof -
  have "iterations (kMeansLoop rests k
      \<lparr>centroids = cs0, assignments = replicate (length rests) 0, iterations = 0\<rparr>)
     \<le> maxIterations"
    by (rule iterations_kMeansLoop) simp
  moreover have "\<exists>n. n \<le> maxIterations
        \<and> kMeansLoop rests k
            \<lparr>centroids = cs0, assignments = replicate (length rests) 0, iterations = 0\<rparr>
          = (nextState rests k ^^ n)
            \<lparr>centroids = cs0, assignments = replicate (length rests) 0, iterations = 0\<rparr>"
    using kMeansLoop_funpow [of "\<lparr>centroids = cs0, assignments = replicate (length rests) 0, iterations = 0\<rparr>" rests k]
    by simp
  moreover have "kMeansLoop rests k \<lparr>centroids = cs0, assignments = asg, iterations = maxIterations\<rparr>
     = \<lparr>centroids = cs0, assignments = asg, iterations = maxIterations\<rparr>"
    by (subst kMeansLoop.simps) simp
  moreover have "\<exists>cs. kMeansCluster rnd rests k = Inr cs"
    by (simp add: kMeansCluster_def)
  ultimately show ?thesis by (simp add: maxIterations_def)
qed

theorem bounded_iteration_witness:
  "iterations (kMeansLoop [point ''a'' 0 0, point ''b'' 4 0] 2
      \<lparr>centroids = [(0, 0), (3, 0)], assignments = [0, 0], iterations = 0\<rparr>) \<le> 100"
  using bounded_iteration [of "[point ''a'' 0 0, point ''b'' 4 0]" 2 "[(0, 0), (3, 0)]"]
  by (simp add: numeral_2_eq_2)

text \<open>
  Claim C6. In an assignment pass over at least one centroid, the cluster given to the
  point at position \<open>p\<close> is the index of a centroid at minimum Euclidean distance from
  it, and every centroid of a lower index is strictly farther away: among the nearest
  centroids the lowest index is taken.
\<close>

theorem assignment_nearest_lowest_index:
  assumes "cs \<noteq> []" and "p < length rests"
  shows "assignAll rests cs ! p < length cs
       \<and> (\<forall>i<length cs.
             euclideanDistance (lat (rests ! p), lon (rests ! p)) (cs ! (assignAll rests cs ! p))
               \<le> euclideanDistance (lat (rests ! p), lon (rests ! p)) (cs ! i))
       \<and> (\<forall>i<assignAll rests cs ! p.
             euclideanDistance (lat (rests ! p), lon (rests ! p)) (cs ! (assignAll rests cs ! p))
               < euclideanDistance (lat (rests ! p), lon (rests ! p)) (cs ! i))"
proof -
  have "assignAll rests cs ! p = assignCluster (rests ! p) cs"
    using assms(2) by (simp add: assignAll_def)
  then show ?thesis
    using assignCluster_nearest [OF assms(1), of "rests ! p"] by simp
qed

theorem assignment_nearest_lowest_index_witness:
  "assignAll [point ''a'' 0 0] [(1, 0), (- 1, 0), (0, 1)] ! 0 = 0"
  using assignment_nearest_lowest_index [of "[(1, 0), (- 1, 0), (0, 1)]" 0 "[point ''a'' 0 0]"]
  by (auto simp: euclideanDistance_def point_def less_Suc_eq numeral_3_eq_3)

text \<open>
  Claim C7, as amended. For \<open>n\<close> points at pairwise distinct positions and \<open>k \<ge> n\<close>
  the call returns at most \<open>n\<close> clusters, none of them empty; they are all singletons
  when exactly \<open>n\<close> clusters are returned.
\<close>

theorem at_most_n_clusters:
  assumes "distinct (map (\<lambda>r. (lat r, lon r)) rests)" and "int (length rests) \<le> k"
    and "kMeansCluster rnd rests k = Inr cs"
  shows "length cs \<le> length rests
       \<and> (\<forall>c\<in>set cs. 1 \<le> length (restaurants c))
       \<and> (length cs = length rests \<longrightarrow> (\<forall>c\<in>set cs. length (restaurants c) = 1))"
proof (cases "rests = []")
  case True
  then have "cs = []" using assms(3) by (simp add: kMeansCluster_def)
  then show ?thesis by simp
next
  case False
  let ?st = "kMeansLoop rests k (initState rnd rests k)"
  have k: "0 < k" using False assms(2) by (cases rests) auto
  have cs: "cs = createClusters rests k ?st"
    using False assms(3) by (simp add: kMeansCluster_def)
  have len: "length (assignments ?st) = length rests"
    and bound: "\<forall>a\<in>set (assignments ?st). a < nat k"
    using final_state [OF k, of rests rnd] by simp_all
  have total: "sum_list (map (\<lambda>c. length (restaurants c)) cs) = length rests"
    unfolding cs by (rule members_total_length [OF len bound])
  have ne: "\<forall>c\<in>set cs. 1 \<le> length (restaurants c)"
    unfolding cs using createClusters_nonempty by blast
  have "length cs \<le> length rests"
    using sum_list_ge_length [OF ne] total by simp
  moreover have "length cs = length rests \<longrightarrow> (\<forall>c\<in>set cs. length (restaurants c) = 1)"
    using sum_list_eq_length [OF ne] total by simp
  ultimately show ?thesis using ne by simp
qed

theorem at_most_n_clusters_witness:
  "length [\<lparr>idC = 0, center = (0, 0),
         restaurants = [(point ''a'' 0 0)\<lparr>cluster := Some 0\<rparr>], color = ''#e91e63''\<rparr>,
       \<lparr>idC = 1, center = (4, 0),
         restaurants = [(point ''b'' 4 0)\<lparr>cluster := Some 1\<rparr>], color = ''#9c27b0''\<rparr>]
     \<le> length [point ''a'' 0 0, point ''b'' 4 0]
   \<and> length (restaurants \<lparr>idC = 1, center = (4, 0),
         restaurants = [(point ''b'' 4 0)\<lparr>cluster := Some 1\<rparr>], color = ''#9c27b0''\<rparr>) = 1"
proof -
  have d: "distinct (map (\<lambda>r. (lat r, lon r)) [point ''a'' 0 0, point ''b'' 4 0])"
    by (simp add: point_def)
  have k: "int (length [point ''a'' 0 0, point ''b'' 4 0]) \<le> 2"
    by simp
  show ?thesis
    using at_most_n_clusters [OF d k ex_run] by simp
qed

text \<open>
  Claim C7 as stated fails: three points at distinct positions, \<open>k = 3\<close>, and draws
  that put the initial centroids at latitudes \<open>1\<close>, \<open>6\<close> and \<open>7\<close>. The points at
  latitudes \<open>0\<close> and \<open>2\<close> are both nearest to the first centroid, in the first pass and
  after the update, so the returned cluster \<open>0\<close> has two members.
\<close>

theorem distinct_points_share_cluster:
  "distinct (map (\<lambda>r. (lat r, lon r)) [point ''a'' 0 0, point ''b'' 2 0, point ''c'' 8 0])
   \<and> int (length [point ''a'' 0 0, point ''b'' 2 0, point ''c'' 8 0]) \<le> 3
   \<and> kMeansCluster (draws [1/8, 0, 3/4, 0, 7/8, 0])
        [point ''a'' 0 0, point ''b'' 2 0, point ''c'' 8 0] 3
     = Inr [\<lparr>idC = 0, center = (1, 0),
             restaurants = [(point ''a'' 0 0)\<lparr>cluster := Some 0\<rparr>,
                            (point ''b'' 2 0)\<lparr>cluster := Some 0\<rparr>],
             color = ''#e91e63''\<rparr>,
            \<lparr>idC = 2, center = (8, 0),
             restaurants = [(point ''c'' 8 0)\<lparr>cluster := Some 2\<rparr>],
             color = ''#3f51b5''\<rparr>]
   \<and> length (restaurants \<lparr>idC = 0, center = (1, 0),
             restaurants = [(point ''a'' 0 0)\<lparr>cluster := Some 0\<rparr>,
                            (point ''b'' 2 0)\<lparr>cluster := Some 0\<rparr>],
             color = ''#e91e63''\<rparr>) = 2"
  by (simp add: ex3_run) (simp add: point_def)

text \<open>
  Claim C8. On the empty point sequence the call returns the empty cluster sequence,
  for every \<open>k\<close> (the positive ones among them).
\<close>

theorem empty_input_returns_empty:
  "kMeansCluster rnd [] k = Inr []"
  by (simp add: kMeansCluster_def)

theorem empty_input_returns_empty_witness:
  "kMeansCluster (draws [1/2, 1/2]) [] 3 = Inr []"
  using empty_input_returns_empty [of "draws [1/2, 1/2]" 3]
  by simp

text \<open>
  Claim C9. The update step keeps the length of the centroid array, leaves the centroid
  of an index with no assigned restaurant as it was, and sets the centroid of an index
  below \<open>k\<close> with at least one assigned restaurant to the mean latitude and the mean
  longitude of the restaurants assigned to it.
\<close>

theorem update_keeps_empty_centroid:
  assumes "i < length cs"
  shows "length (updateCentroids rests asg k cs) = length cs
       \<and> updateCentroids rests asg k cs ! i =
           (if i < nat k \<and> clusterRestaurants rests asg i \<noteq> []
            then (sum_list (map lat (clusterRestaurants rests asg i))
                    / real (length (clusterRestaurants rests asg i)),
                  sum_list (map lon (clusterRestaurants rests asg i))
                    / real (length (clusterRestaurants rests asg i)))
            else cs ! i)"
  using assms by (simp add: updateCentroids_def length_fold_updateStep nth_fold_updateStep)

theorem update_keeps_empty_centroid_witness:
  "updateCentroids [point ''a'' 0 0, point ''b'' 4 0] [0, 0] 2 [(0, 0), (3, 0)] ! 1 = (3, 0)
   \<and> updateCentroids [point ''a'' 0 0, point ''b'' 4 0] [0, 0] 2 [(0, 0), (3, 0)] ! 0 = (2, 0)"
  using update_keeps_empty_centroid [of 1 "[(0, 0), (3, 0)]" "[point ''a'' 0 0, point ''b'' 4 0]" "[0, 0]" 2]
        update_keeps_empty_centroid [of 0 "[(0, 0), (3, 0)]" "[point ''a'' 0 0, point ''b'' 4 0]" "[0, 0]" 2]
  by (simp add: clusterRestaurants_def filterIdx_def elemAt_def upt2 point_def)

text \<open>
  Claim C10. The returned clusters are in strictly increasing order of identifier, and
  every identifier lies between \<open>0\<close> and \<open>k - 1\<close>.
\<close>

theorem cluster_ids_increasing:
  assumes "kMeansCluster rnd rests k = Inr cs"
  shows "sorted_wrt (<) (map idC cs) \<and> (\<forall>c\<in>set cs. 0 \<le> int (idC c) \<and> int (idC c) \<le> k - 1)"
  using assms
  by (auto simp: kMeansCluster_def createClusters_eq comp_def sorted_wrt_filter split: if_splits)

theorem cluster_ids_increasing_witness:
  "sorted_wrt (<) (map idC
      [\<lparr>idC = 0, center = (0, 0),
         restaurants = [(point ''a'' 0 0)\<lparr>cluster := Some 0\<rparr>], color = ''#e91e63''\<rparr>,
       \<lparr>idC = 1, center = (4, 0),
         restaurants = [(point ''b'' 4 0)\<lparr>cluster := Some 1\<rparr>], color = ''#9c27b0''\<rparr>])"
  using cluster_ids_increasing [OF ex_run]
  by simp

end
